theory Spec2Isabelle
  imports Complex_Main "HOL-Library.Word"
begin

section \<open>The QUIC connection demultiplexer of hypercorn (protocol/quic.py)\<close>

text \<open>
  The theory embeds class \<open>QuicProtocol\<close> of \<open>src/hypercorn/protocol/quic.py\<close>: the
  registry \<open>self.connections\<close>, the session map \<open>self.http_connections\<close>, and the
  methods \<open>handle\<close>, \<open>send_all\<close>, \<open>_handle_events\<close> and \<open>_handle_timer\<close>.

  The protocol engine (aioquic) is an external library. Its functions are parameters of
  the model (record \<open>engine\<close>), so every theorem holds for any engine. Python objects
  that are shared and mutated (the \<open>QuicConnection\<close> objects) live in an explicit store
  addressed by references; the two dictionaries hold references, as in Python.
  A raised exception is a value: every method returns the exception (if any) together
  with the state at the moment it was raised, since Python does not roll mutations back.
  The calls to the outside (\<open>self.send\<close>, \<open>self.call_at\<close>, the engine's
  \<open>receive_datagram\<close> and \<open>handle_timer\<close>) are recorded in traces.

  What lies outside the class is taken to return normally: \<open>self.send\<close>, \<open>self.call_at\<close>,
  the engine's methods other than the header parser, and the session's \<open>handle\<close>, which
  is also taken to leave the connection's event queue alone. The exceptions of the model
  are those this class can meet in its own statements: the parser's, and \<open>KeyError\<close>
  from \<open>del\<close>.
\<close>

subsection \<open>Data\<close>

type_synonym bytes = "8 word list"

text \<open>A network address is the tuple (host, port).\<close>
type_synonym address = "string \<times> nat"

text \<open>
  Timestamps are Python floats. The code does no arithmetic on them: it passes them on
  and tests them against \<open>None\<close>, so any carrier with equality serves.
\<close>
type_synonym time = real

text \<open>A reference to a \<open>QuicConnection\<close> object: its identity in the store.\<close>
type_synonym conn_ref = nat

text \<open>
  The exceptions that can reach this code: \<open>KeyError\<close> from \<open>del\<close> on a dictionary, and
  the errors the header parser raises on malformed input.
\<close>
datatype exn = KeyError bytes | BufferReadError | ValueError

text \<open>The fields of aioquic's \<open>QuicHeader\<close> that the code reads.\<close>
record quic_header =
  version :: "nat option"
  packet_type :: "nat option"
  destination_cid :: bytes
  source_cid :: bytes

text \<open>
  The events of \<open>aioquic.quic.events\<close>: the four kinds the dispatcher tests for with
  \<open>isinstance\<close>, and every other kind, which it only forwards.
\<close>
datatype quic_event =
    ConnectionTerminated
  | ProtocolNegotiated
  | ConnectionIdIssued bytes
  | ConnectionIdRetired bytes
  | OtherQuicEvent nat

text \<open>
  Modelled from the spec: the events of \<open>hypercorn/events.py\<close> (not among the sources),
  section 6: \<open>RawData {payload, address}\<close>, \<open>Closed {}\<close>; any other event is ignored by
  \<open>handle\<close>.
\<close>
datatype event = RawData bytes address | Closed | OtherEvent

text \<open>
  What the code reads of a \<open>QuicConnection\<close>: \<open>host_cid\<close>, the queue behind
  \<open>next_event()\<close> and \<open>_close_at\<close>. Everything else of the engine's state is opaque.
\<close>
record quic_connection =
  host_cid :: bytes
  events :: "quic_event list"
  close_at :: "time option"
  engine_state :: nat

text \<open>
  Modelled from the spec: class \<open>H3Protocol\<close> of \<open>hypercorn/protocol/h3.py\<close> (not among
  the sources). Section 4.4: the session consumes events opaquely. The model keeps the
  constructor's arguments that identify the session, the order of construction (the
  object's identity) and the events passed to its \<open>handle\<close>, in order.
\<close>
record h3_protocol =
  h3_client :: "address option"
  h3_server :: "address option"
  h3_connection :: conn_ref
  h3_serial :: nat
  h3_handled :: "quic_event list"

definition h3_handle :: "h3_protocol \<Rightarrow> quic_event \<Rightarrow> h3_protocol" where
  "h3_handle h e = h\<lparr>h3_handled := h3_handled h @ [e]\<rparr>"

text \<open>The calls that feed the engine, as recorded in the trace.\<close>
datatype engine_call =
    ReceiveDatagram conn_ref bytes address time
  | HandleTimer conn_ref time

text \<open>
  The external collaborators: aioquic's functions and constants, the server address and
  the clock. \<open>new_connection n\<close> is the \<open>n\<close>-th \<open>QuicConnection(...)\<close> constructed (the
  engine draws \<open>host_cid\<close> at random); \<open>now n\<close> is what the \<open>n\<close>-th call of \<open>self.now()\<close>
  returns. The header parser is called with \<open>host_cid_length=8\<close>.
\<close>
record engine =
  pull_quic_header :: "bytes \<Rightarrow> exn + quic_header"
  supported_versions :: "nat list"
  encode_quic_version_negotiation :: "bytes \<Rightarrow> bytes \<Rightarrow> nat list \<Rightarrow> bytes"
  PACKET_TYPE_INITIAL :: nat
  new_connection :: "nat \<Rightarrow> quic_connection"
  receive_datagram :: "bytes \<Rightarrow> address \<Rightarrow> time \<Rightarrow> quic_connection \<Rightarrow> quic_connection"
  conn_handle_timer :: "time \<Rightarrow> quic_connection \<Rightarrow> quic_connection"
  datagrams_to_send :: "time \<Rightarrow> quic_connection \<Rightarrow> (bytes \<times> address) list \<times> quic_connection"
  get_timer :: "quic_connection \<Rightarrow> time option"
  server :: "address option"
  now :: "nat \<Rightarrow> time"

text \<open>
  The state of a \<open>QuicProtocol\<close> object and of what it touches: the two dictionaries, the
  store of connection objects with its allocation counter, and the traces of
  \<open>self.send\<close> (\<open>sent\<close>), \<open>self.call_at\<close> (\<open>scheduled\<close>: deadline and the connection bound
  into \<open>partial(self._handle_timer, connection)\<close>), \<open>self.now\<close>, the \<open>H3Protocol\<close>
  constructor and the engine.
\<close>
record quic_protocol =
  connections :: "bytes \<rightharpoonup> conn_ref"
  http_connections :: "conn_ref \<rightharpoonup> h3_protocol"
  heap :: "conn_ref \<Rightarrow> quic_connection"
  next_ref :: conn_ref
  sent :: "(bytes \<times> address) list"
  scheduled :: "(time \<times> conn_ref) list"
  now_calls :: nat
  sessions_made :: nat
  engine_calls :: "engine_call list"

subsection \<open>The methods\<close>

text \<open>\<open>self.now()\<close>\<close>
definition call_now :: "engine \<Rightarrow> quic_protocol \<Rightarrow> time \<times> quic_protocol" where
  "call_now env s = (now env (now_calls s), s\<lparr>now_calls := Suc (now_calls s)\<rparr>)"

text \<open>\<open>await self.send(RawData(data=data, address=address))\<close>\<close>
definition send :: "quic_protocol \<Rightarrow> bytes \<times> address \<Rightarrow> quic_protocol" where
  "send s d = s\<lparr>sent := sent s @ [d]\<rparr>"

text \<open>
  \<open>send_all\<close>: the argument \<open>self.now()\<close> is evaluated, the engine hands over its queued
  datagrams, and the loop sends each of them in order.
\<close>
definition send_all :: "engine \<Rightarrow> conn_ref \<Rightarrow> quic_protocol \<Rightarrow> quic_protocol" where
  "send_all env c s =
     (case call_now env s of (t, s1) \<Rightarrow>
        (case datagrams_to_send env t (heap s1 c) of (ds, q) \<Rightarrow>
           foldl send (s1\<lparr>heap := (heap s1)(c := q)\<rparr>) ds))"

text \<open>
  \<open>connection.next_event()\<close>: aioquic pops the left end of the connection's event
  deque and returns \<open>None\<close> when it is empty.
\<close>
definition next_event :: "conn_ref \<Rightarrow> quic_protocol \<Rightarrow> quic_event option \<times> quic_protocol" where
  "next_event c s =
     (case events (heap s c) of
        [] \<Rightarrow> (None, s)
      | e # es \<Rightarrow> (Some e, s\<lparr>heap := (heap s)(c := (heap s c)\<lparr>events := es\<rparr>)\<rparr>))"

text \<open>
  The \<open>if\<close>/\<open>elif\<close> chain of the loop body of \<open>_handle_events\<close> (lines 99 to 113).
  \<open>del self.connections[k]\<close> raises \<open>KeyError\<close> when \<open>k\<close> is not a key.
\<close>
fun react :: "engine \<Rightarrow> conn_ref \<Rightarrow> address option \<Rightarrow> quic_event \<Rightarrow> quic_protocol
    \<Rightarrow> exn option \<times> quic_protocol" where
  "react env c client ConnectionTerminated s = (None, s)"
| "react env c client ProtocolNegotiated s =
     (None, s\<lparr>http_connections := (http_connections s)(c \<mapsto>
                 \<lparr>h3_client = client, h3_server = server env, h3_connection = c,
                  h3_serial = sessions_made s, h3_handled = []\<rparr>),
               sessions_made := Suc (sessions_made s)\<rparr>)"
| "react env c client (ConnectionIdIssued k) s =
     (None, s\<lparr>connections := (connections s)(k \<mapsto> c)\<rparr>)"
| "react env c client (ConnectionIdRetired k) s =
     (case connections s k of
        None \<Rightarrow> (Some (KeyError k), s)
      | Some _ \<Rightarrow> (None, s\<lparr>connections := (connections s)(k := None)\<rparr>))"
| "react env c client (OtherQuicEvent n) s = (None, s)"

text \<open>
  Lines 115 and 116: \<open>if connection in self.http_connections:
  await self.http_connections[connection].handle(event)\<close>.
\<close>
definition forward :: "conn_ref \<Rightarrow> quic_event \<Rightarrow> quic_protocol \<Rightarrow> quic_protocol" where
  "forward c e s =
     (case http_connections s c of
        None \<Rightarrow> s
      | Some h \<Rightarrow> s\<lparr>http_connections := (http_connections s)(c \<mapsto> h3_handle h e)\<rparr>)"

text \<open>
  The \<open>while\<close> loop of \<open>_handle_events\<close> (lines 97 to 118). An exception raised by the
  reaction leaves the loop at once: the event is not forwarded and the rest of the queue
  stays in the engine.
\<close>
function handle_events_loop :: "engine \<Rightarrow> conn_ref \<Rightarrow> address option \<Rightarrow> quic_protocol
    \<Rightarrow> exn option \<times> quic_protocol" where
  "handle_events_loop env c client s =
     (case next_event c s of
        (None, s1) \<Rightarrow> (None, s1)
      | (Some e, s1) \<Rightarrow>
          (case react env c client e s1 of
             (Some x, s2) \<Rightarrow> (Some x, s2)
           | (None, s2) \<Rightarrow> handle_events_loop env c client (forward c e s2)))"
  by pat_completeness auto
termination
proof (relation "measure (\<lambda>(env, c, client, s). length (events (heap s c)))")
  show "wf (measure (\<lambda>(env, c, client, s). length (events (heap s c))))"
    by simp
next
  fix env :: engine and c client s x1 s1 e x1a s2
  assume ne: "(x1, s1) = next_event c s" and some: "x1 = Some e"
    and re: "(x1a, s2) = react env c client e s1"
  from ne some have "events (heap s c) = e # events (heap s1 c)"
    by (auto simp: next_event_def split: list.splits)
  moreover from re have "heap s2 = heap s1"
    by (cases e) (auto split: option.splits)
  moreover have "heap (forward c e s2) = heap s2"
    by (simp add: forward_def split: option.splits)
  ultimately show "((env, c, client, forward c e s2), (env, c, client, s))
      \<in> measure (\<lambda>(env, c, client, s). length (events (heap s c)))"
    by simp
qed

declare handle_events_loop.simps [simp del]

text \<open>
  \<open>_handle_events\<close>: the loop, then \<open>send_all\<close>, then \<open>get_timer()\<close> and \<open>call_at\<close>
  (lines 120 to 124). None of this runs when the loop raised.
\<close>
definition handle_events :: "engine \<Rightarrow> conn_ref \<Rightarrow> address option \<Rightarrow> quic_protocol
    \<Rightarrow> exn option \<times> quic_protocol" where
  "handle_events env c client s =
     (case handle_events_loop env c client s of
        (Some x, s1) \<Rightarrow> (Some x, s1)
      | (None, s1) \<Rightarrow>
          (let s2 = send_all env c s1 in
           case get_timer env (heap s2 c) of
             None \<Rightarrow> (None, s2)
           | Some timer \<Rightarrow> (None, s2\<lparr>scheduled := scheduled s2 @ [(timer, c)]\<rparr>)))"

text \<open>\<open>_handle_timer\<close> (lines 126 to 129).\<close>
definition handle_timer :: "engine \<Rightarrow> conn_ref \<Rightarrow> quic_protocol \<Rightarrow> exn option \<times> quic_protocol" where
  "handle_timer env c s =
     (if close_at (heap s c) \<noteq> None then
        (case call_now env s of (t, s1) \<Rightarrow>
           handle_events env c None
             (s1\<lparr>heap := (heap s1)(c := conn_handle_timer env t (heap s1 c)),
                 engine_calls := engine_calls s1 @ [HandleTimer c t]\<rparr>))
      else (None, s))"

text \<open>
  \<open>handle\<close> (lines 61 to 88). The parser's exception is not caught. A new
  \<open>QuicConnection\<close> takes the next free reference of the store.
\<close>
definition handle :: "engine \<Rightarrow> quic_protocol \<Rightarrow> event \<Rightarrow> exn option \<times> quic_protocol" where
  "handle env s ev =
     (case ev of
        RawData data addr \<Rightarrow>
          (case pull_quic_header env data of
             Inl x \<Rightarrow> (Some x, s)
           | Inr header \<Rightarrow>
               if version header \<noteq> None
                  \<and> the (version header) \<notin> set (supported_versions env)
               then
                 (None, send s
                    (encode_quic_version_negotiation env (destination_cid header)
                       (source_cid header) (supported_versions env), addr))
               else
                 (let (connection, s1) =
                    (case connections s (destination_cid header) of
                       None \<Rightarrow>
                         if packet_type header = Some (PACKET_TYPE_INITIAL env) then
                           (let r = next_ref s; q = new_connection env r in
                            (Some r,
                             s\<lparr>heap := (heap s)(r := q), next_ref := Suc r,
                               connections := (connections s)
                                 (destination_cid header \<mapsto> r, host_cid q \<mapsto> r)\<rparr>))
                         else (None, s)
                     | Some r \<Rightarrow> (Some r, s))
                  in case connection of
                       None \<Rightarrow> (None, s1)
                     | Some r \<Rightarrow>
                         (case call_now env s1 of (t, s2) \<Rightarrow>
                            handle_events env r (Some addr)
                              (s2\<lparr>heap := (heap s2)(r := receive_datagram env data addr t (heap s2 r)),
                                  engine_calls := engine_calls s2 @ [ReceiveDatagram r data addr t]\<rparr>))))
      | Closed \<Rightarrow> (None, s)
      | OtherEvent \<Rightarrow> (None, s))"


subsection \<open>Notions used to state the properties\<close>

text \<open>
  The keys of the registry after the dispatcher has reacted to a list of events, given
  the keys before: an issued identifier is added, a retired one removed.
\<close>
fun keys_after :: "bytes set \<Rightarrow> quic_event list \<Rightarrow> bytes set" where
  "keys_after K [] = K"
| "keys_after K (ConnectionIdIssued k # es) = keys_after (insert k K) es"
| "keys_after K (ConnectionIdRetired k # es) = keys_after (K - {k}) es"
| "keys_after K (e # es) = keys_after K es"

text \<open>
  A well-behaved engine retires only identifiers that are in the registry at that point
  of the event stream: \<open>K\<close> is the set of keys before the first event.
\<close>
fun well_behaved :: "bytes set \<Rightarrow> quic_event list \<Rightarrow> bool" where
  "well_behaved K [] = True"
| "well_behaved K (ConnectionIdIssued k # es) = well_behaved (insert k K) es"
| "well_behaved K (ConnectionIdRetired k # es) = (k \<in> K \<and> well_behaved (K - {k}) es)"
| "well_behaved K (e # es) = well_behaved K es"

text \<open>The events that issue or retire the identifier \<open>k\<close>.\<close>
definition touches :: "bytes \<Rightarrow> quic_event \<Rightarrow> bool" where
  "touches k e = (e = ConnectionIdIssued k \<or> e = ConnectionIdRetired k)"

text \<open>
  One pass of the loop body that does not raise: pop the event, react, forward. It is
  the stepping stone of the proofs about the loop.
\<close>
definition iteration :: "engine \<Rightarrow> conn_ref \<Rightarrow> address option \<Rightarrow> quic_protocol \<Rightarrow> quic_event
    \<Rightarrow> quic_protocol" where
  "iteration env c client s e =
     forward c e (snd (react env c client e (snd (next_event c s))))"

subsection \<open>An example engine\<close>

text \<open>
  A small engine on which the theorems are instantiated. Its header parser reads the
  packet type, the version (0 for none), a one-byte destination identifier and the
  source identifier, and fails on a datagram of fewer than three bytes.
\<close>
fun example_pull_quic_header :: "bytes \<Rightarrow> exn + quic_header" where
  "example_pull_quic_header (t # v # d # sc) =
     Inr \<lparr>version = (if v = 0 then None else Some (unat v)), packet_type = Some (unat t),
          destination_cid = [d], source_cid = sc\<rparr>"
| "example_pull_quic_header _ = Inl BufferReadError"

definition example_engine :: engine where
  "example_engine =
     \<lparr>pull_quic_header = example_pull_quic_header,
      supported_versions = [1],
      encode_quic_version_negotiation = (\<lambda>scid dcid vs. 128 # scid @ dcid @ map of_nat vs),
      PACKET_TYPE_INITIAL = 192,
      new_connection = (\<lambda>n. \<lparr>host_cid = [of_nat n + 100], events = [], close_at = None,
                              engine_state = 0\<rparr>),
      receive_datagram = (\<lambda>d a t q. q\<lparr>events := events q @ [ProtocolNegotiated, ConnectionIdIssued (take 1 d)],
                                      close_at := Some t\<rparr>),
      conn_handle_timer = (\<lambda>t q. q\<lparr>events := events q @ [ProtocolNegotiated], close_at := None\<rparr>),
      datagrams_to_send = (\<lambda>t q. ([([of_nat (engine_state q)], (''client'', 4433))],
                                   q\<lparr>engine_state := Suc (engine_state q)\<rparr>)),
      get_timer = close_at,
      server = Some (''server'', 443),
      now = real\<rparr>"

text \<open>
  The same engine, except that receiving a datagram queues no event: after \<open>handle\<close> the
  registry holds what \<open>handle\<close> itself has stored.
\<close>
definition quiet_engine :: engine where
  "quiet_engine = example_engine\<lparr>receive_datagram := (\<lambda>d a t q. q)\<rparr>"

text \<open>A protocol object right after \<open>__init__\<close>: both dictionaries empty.\<close>
definition empty_protocol :: quic_protocol where
  "empty_protocol =
     \<lparr>connections = Map.empty, http_connections = Map.empty,
      heap = new_connection example_engine, next_ref = 0, sent = [], scheduled = [],
      now_calls = 0, sessions_made = 0, engine_calls = []\<rparr>"

text \<open>
  A protocol object with one connection (reference 0), registered under the client's
  identifier \<open>[5]\<close> and its own \<open>[100]\<close>, with the events \<open>q\<close> queued in the engine and
  \<open>_close_at = ca\<close>.
\<close>
definition one_connection :: "quic_event list \<Rightarrow> time option \<Rightarrow> quic_protocol" where
  "one_connection q ca =
     empty_protocol
       \<lparr>connections := [[5] \<mapsto> 0, [100] \<mapsto> 0],
        heap := (new_connection example_engine)
                  (0 := \<lparr>host_cid = [100], events = q, close_at = ca, engine_state = 0\<rparr>),
        next_ref := 1\<rparr>"

section \<open>Properties\<close>

subsection \<open>The loop, one event at a time\<close>

lemma heap_react: "react env c client e s = (r, s') \<Longrightarrow> heap s' = heap s"
  by (cases e) (auto split: option.splits)

lemma heap_forward: "heap (forward c e s) = heap s"
  by (simp add: forward_def split: option.splits)

lemma loop_Nil:
  "events (heap s c) = [] \<Longrightarrow> handle_events_loop env c client s = (None, s)"
  by (subst handle_events_loop.simps) (simp add: next_event_def)

lemma loop_Cons:
  "events (heap s c) = e # es \<Longrightarrow>
   handle_events_loop env c client s =
     (case react env c client e (s\<lparr>heap := (heap s)(c := (heap s c)\<lparr>events := es\<rparr>)\<rparr>) of
        (Some x, s2) \<Rightarrow> (Some x, s2)
      | (None, s2) \<Rightarrow> handle_events_loop env c client (forward c e s2))"
  by (subst handle_events_loop.simps) (simp add: next_event_def)

lemma react_ok:
  "(\<forall>k. e = ConnectionIdRetired k \<longrightarrow> k \<in> dom (connections s)) \<Longrightarrow>
   fst (react env c client e s) = None"
  by (cases e) (auto split: option.splits)

lemma loop_iteration:
  assumes "events (heap s c) = e # es"
    and "\<forall>k. e = ConnectionIdRetired k \<longrightarrow> k \<in> dom (connections s)"
  shows "handle_events_loop env c client s
         = handle_events_loop env c client (iteration env c client s e)"
proof -
  let ?s1 = "s\<lparr>heap := (heap s)(c := (heap s c)\<lparr>events := es\<rparr>)\<rparr>"
  have "fst (react env c client e ?s1) = None"
    using assms(2) by (intro react_ok) simp
  then obtain s2 where r: "react env c client e ?s1 = (None, s2)"
    by (cases "react env c client e ?s1") auto
  have ne: "next_event c s = (Some e, ?s1)"
    using assms(1) by (simp add: next_event_def)
  show ?thesis
    by (simp add: loop_Cons [OF assms(1)] r iteration_def ne)
qed

lemma events_iteration:
  "events (heap s c) = e # es \<Longrightarrow> events (heap (iteration env c client s e) c) = es"
  unfolding iteration_def
  by (cases "react env c client e (snd (next_event c s))")
     (auto simp: heap_forward next_event_def dest!: heap_react)

lemma dom_iteration:
  "dom (connections (iteration env c client s e)) =
     (case e of ConnectionIdIssued k \<Rightarrow> insert k (dom (connections s))
      | ConnectionIdRetired k \<Rightarrow> dom (connections s) - {k}
      | _ \<Rightarrow> dom (connections s))"
  unfolding iteration_def
  by (cases e) (auto simp: forward_def next_event_def split: option.splits list.splits)

lemma well_behaved_Cons:
  "well_behaved K (e # es) \<Longrightarrow>
     (\<forall>k. e = ConnectionIdRetired k \<longrightarrow> k \<in> K) \<and>
     well_behaved (case e of ConnectionIdIssued k \<Rightarrow> insert k K
                   | ConnectionIdRetired k \<Rightarrow> K - {k} | _ \<Rightarrow> K) es"
  by (cases e) auto

lemma keys_after_Cons:
  "keys_after K (e # es) =
     keys_after (case e of ConnectionIdIssued k \<Rightarrow> insert k K
                   | ConnectionIdRetired k \<Rightarrow> K - {k} | _ \<Rightarrow> K) es"
  by (cases e) auto

lemma loop_prefix:
  "events (heap s c) = pre @ rest \<Longrightarrow> well_behaved (dom (connections s)) pre \<Longrightarrow>
   handle_events_loop env c client s
     = handle_events_loop env c client (foldl (iteration env c client) s pre)"
proof (induction pre arbitrary: s)
  case Nil
  then show ?case by simp
next
  case (Cons e pre)
  from Cons.prems(2) have ok: "\<forall>k. e = ConnectionIdRetired k \<longrightarrow> k \<in> dom (connections s)"
    and wb: "well_behaved (dom (connections (iteration env c client s e))) pre"
    by (auto dest!: well_behaved_Cons simp: dom_iteration)
  from Cons.prems(1) have ev: "events (heap s c) = e # (pre @ rest)" by simp
  have "handle_events_loop env c client s
        = handle_events_loop env c client (iteration env c client s e)"
    by (rule loop_iteration [OF ev ok])
  also have "\<dots> = handle_events_loop env c client
                     (foldl (iteration env c client) (iteration env c client s e) pre)"
    by (rule Cons.IH [OF events_iteration [OF ev] wb])
  finally show ?case by simp
qed

lemma events_foldl_iteration:
  "events (heap s c) = pre @ rest \<Longrightarrow>
   events (heap (foldl (iteration env c client) s pre) c) = rest"
proof (induction pre arbitrary: s)
  case Nil
  then show ?case by simp
next
  case (Cons e pre)
  then show ?case by (simp add: events_iteration)
qed

lemma dom_foldl_iteration:
  "dom (connections (foldl (iteration env c client) s q)) = keys_after (dom (connections s)) q"
  by (induction q arbitrary: s) (simp_all add: dom_iteration keys_after_Cons)

lemma loop_all:
  assumes "well_behaved (dom (connections s)) (events (heap s c))"
  shows "handle_events_loop env c client s
         = (None, foldl (iteration env c client) s (events (heap s c)))"
proof -
  have "events (heap s c) = events (heap s c) @ []" by simp
  from loop_prefix [OF this assms] events_foldl_iteration [OF this]
  show ?thesis by (simp add: loop_Nil)
qed

lemma connections_iteration:
  "connections (iteration env c client s e) =
     (case e of ConnectionIdIssued k \<Rightarrow> (connections s)(k \<mapsto> c)
      | ConnectionIdRetired k \<Rightarrow> (connections s)(k := None)
      | _ \<Rightarrow> connections s)"
  unfolding iteration_def
  by (cases e) (auto simp: forward_def next_event_def split: option.splits list.splits)

lemma connections_foldl_iteration:
  "connections (foldl (iteration env c client) s q) k =
     (case find (touches k) (rev q) of
        None \<Rightarrow> connections s k
      | Some e \<Rightarrow> if e = ConnectionIdIssued k then Some c else None)"
proof (induction q rule: rev_induct)
  case Nil
  then show ?case by simp
next
  case (snoc e q)
  show ?case
    by (cases e) (auto simp: connections_iteration touches_def snoc.IH)
qed

lemma sessions_made_iteration:
  "sessions_made (iteration env c client s e) =
     (if e = ProtocolNegotiated then Suc (sessions_made s) else sessions_made s)"
  unfolding iteration_def
  by (cases e) (auto simp: forward_def next_event_def split: option.splits list.splits)

lemma sessions_made_foldl_iteration:
  "sessions_made (foldl (iteration env c client) s q) =
     sessions_made s + count_list q ProtocolNegotiated"
  by (induction q arbitrary: s) (simp_all add: sessions_made_iteration)

lemma http_connections_iteration:
  "http_connections (iteration env c client s e) =
     (if e = ProtocolNegotiated then
        (http_connections s)(c \<mapsto>
           \<lparr>h3_client = client, h3_server = server env, h3_connection = c,
            h3_serial = sessions_made s, h3_handled = [ProtocolNegotiated]\<rparr>)
      else (case http_connections s c of
              None \<Rightarrow> http_connections s
            | Some h \<Rightarrow> (http_connections s)(c \<mapsto> h\<lparr>h3_handled := h3_handled h @ [e]\<rparr>)))"
  unfolding iteration_def
  by (cases e) (auto simp: forward_def next_event_def h3_handle_def split: option.splits list.splits)

lemma http_connections_other:
  "c' \<noteq> c \<Longrightarrow> http_connections (foldl (iteration env c client) s q) c' = http_connections s c'"
  by (induction q arbitrary: s) (simp_all add: http_connections_iteration split: option.splits)

lemma http_connections_foldl_iteration:
  "http_connections (foldl (iteration env c client) s q) c =
     (if ProtocolNegotiated \<in> set q then
        Some \<lparr>h3_client = client, h3_server = server env, h3_connection = c,
              h3_serial = sessions_made s + count_list q ProtocolNegotiated - 1,
              h3_handled = ProtocolNegotiated #
                 rev (takeWhile (\<lambda>e. e \<noteq> ProtocolNegotiated) (rev q))\<rparr>
      else map_option (\<lambda>h. h\<lparr>h3_handled := h3_handled h @ q\<rparr>) (http_connections s c))"
proof (induction q rule: rev_induct)
  case Nil
  then show ?case by (cases "http_connections s c") simp_all
next
  case (snoc e q)
  show ?case
  proof (cases "e = ProtocolNegotiated")
    case True
    then show ?thesis
      by (simp add: http_connections_iteration sessions_made_foldl_iteration)
  next
    case False
    then show ?thesis
      by (cases "http_connections s c")
         (simp_all add: http_connections_iteration snoc.IH)
  qed
qed

lemma frame_iteration:
  "sent (iteration env c client s e) = sent s"
  "scheduled (iteration env c client s e) = scheduled s"
  "now_calls (iteration env c client s e) = now_calls s"
  "engine_calls (iteration env c client s e) = engine_calls s"
  "next_ref (iteration env c client s e) = next_ref s"
  unfolding iteration_def
  by (cases e; auto simp: forward_def next_event_def split: option.splits list.splits)+

lemma frame_foldl_iteration:
  "sent (foldl (iteration env c client) s q) = sent s"
  "scheduled (foldl (iteration env c client) s q) = scheduled s"
  "now_calls (foldl (iteration env c client) s q) = now_calls s"
  "engine_calls (foldl (iteration env c client) s q) = engine_calls s"
  "next_ref (foldl (iteration env c client) s q) = next_ref s"
  by (induction q arbitrary: s; simp add: frame_iteration)+

lemma heap_iteration:
  "heap (iteration env c client s e) =
     (case events (heap s c) of [] \<Rightarrow> heap s
      | _ # es \<Rightarrow> (heap s)(c := (heap s c)\<lparr>events := es\<rparr>))"
  unfolding iteration_def
  by (cases "react env c client e (snd (next_event c s))")
     (auto simp: heap_forward next_event_def split: list.splits dest!: heap_react)

lemma heap_foldl_iteration:
  "events (heap s c) = pre @ rest \<Longrightarrow>
   heap (foldl (iteration env c client) s pre) = (heap s)(c := (heap s c)\<lparr>events := rest\<rparr>)"
proof (induction pre arbitrary: s)
  case Nil
  then have "(heap s c)\<lparr>events := rest\<rparr> = heap s c"
    by (cases "heap s c") simp
  then show ?case by simp
next
  case (Cons e pre)
  have "events (heap (iteration env c client s e) c) = pre @ rest"
    using Cons.prems by (simp add: events_iteration)
  from Cons.IH [OF this] Cons.prems show ?case
    by (auto simp: heap_iteration fun_eq_iff)
qed

lemma foldl_send: "foldl send s ds = s\<lparr>sent := sent s @ ds\<rparr>"
  by (induction ds arbitrary: s) (simp_all add: send_def)

lemma send_all_eq:
  "datagrams_to_send env (now env (now_calls s)) (heap s c) = (ds, q) \<Longrightarrow>
   send_all env c s =
     s\<lparr>now_calls := Suc (now_calls s), heap := (heap s)(c := q), sent := sent s @ ds\<rparr>"
  by (simp add: send_all_def call_now_def foldl_send)

lemma well_behaved_append:
  "well_behaved K (pre @ post) = (well_behaved K pre \<and> well_behaved (keys_after K pre) post)"
  by (induction K pre rule: well_behaved.induct) auto

lemma first_bad:
  "\<not> well_behaved K q \<Longrightarrow>
   \<exists>pre k rest. q = pre @ ConnectionIdRetired k # rest \<and> well_behaved K pre
      \<and> k \<notin> keys_after K pre"
proof (induction q rule: rev_induct)
  case Nil
  then show ?case by simp
next
  case (snoc e q)
  show ?case
  proof (cases "well_behaved K q")
    case True
    with snoc.prems have "\<not> well_behaved (keys_after K q) [e]"
      by (simp add: well_behaved_append)
    then obtain k where "e = ConnectionIdRetired k" "k \<notin> keys_after K q"
      by (cases e) auto
    with True show ?thesis by blast
  next
    case False
    from snoc.IH [OF this] obtain pre k rest where
      "q = pre @ ConnectionIdRetired k # rest" "well_behaved K pre" "k \<notin> keys_after K pre"
      by blast
    then have "q @ [e] = pre @ ConnectionIdRetired k # (rest @ [e])" by simp
    with \<open>well_behaved K pre\<close> \<open>k \<notin> keys_after K pre\<close> show ?thesis by blast
  qed
qed

lemma loop_abort:
  assumes ev: "events (heap s c) = pre @ ConnectionIdRetired k # rest"
    and wb: "well_behaved (dom (connections s)) pre"
    and absent: "k \<notin> keys_after (dom (connections s)) pre"
  shows "handle_events_loop env c client s =
     (Some (KeyError k),
      (foldl (iteration env c client) s pre)
        \<lparr>heap := (heap s)(c := (heap s c)\<lparr>events := rest\<rparr>)\<rparr>)"
proof -
  let ?s1 = "foldl (iteration env c client) s pre"
  have e1: "events (heap ?s1 c) = ConnectionIdRetired k # rest"
    by (rule events_foldl_iteration [OF ev])
  have h1: "heap ?s1 = (heap s)(c := (heap s c)\<lparr>events := ConnectionIdRetired k # rest\<rparr>)"
    by (rule heap_foldl_iteration [OF ev])
  have "connections ?s1 k = None"
    using absent dom_foldl_iteration [of env c client s pre] by auto
  then have step: "handle_events_loop env c client ?s1 =
     (Some (KeyError k), ?s1\<lparr>heap := (heap ?s1)(c := (heap ?s1 c)\<lparr>events := rest\<rparr>)\<rparr>)"
    by (simp add: loop_Cons [OF e1])
  have heq: "(heap ?s1)(c := (heap ?s1 c)\<lparr>events := rest\<rparr>)
             = (heap s)(c := (heap s c)\<lparr>events := rest\<rparr>)"
    by (simp add: h1)
  show ?thesis
    by (simp only: loop_prefix [OF ev wb] step heq)
qed

lemma loop_ok_iff:
  "fst (handle_events_loop env c client s) = None
     \<longleftrightarrow> well_behaved (dom (connections s)) (events (heap s c))"
proof
  assume ok: "fst (handle_events_loop env c client s) = None"
  show "well_behaved (dom (connections s)) (events (heap s c))"
  proof (rule ccontr)
    assume "\<not> well_behaved (dom (connections s)) (events (heap s c))"
    from first_bad [OF this] obtain pre k rest where
      "events (heap s c) = pre @ ConnectionIdRetired k # rest"
      "well_behaved (dom (connections s)) pre" "k \<notin> keys_after (dom (connections s)) pre"
      by blast
    from loop_abort [OF this] ok show False by simp
  qed
next
  assume "well_behaved (dom (connections s)) (events (heap s c))"
  then show "fst (handle_events_loop env c client s) = None"
    by (simp add: loop_all)
qed

lemma loop_frame:
  "sent (snd (handle_events_loop env c client s)) = sent s
   \<and> scheduled (snd (handle_events_loop env c client s)) = scheduled s
   \<and> now_calls (snd (handle_events_loop env c client s)) = now_calls s
   \<and> engine_calls (snd (handle_events_loop env c client s)) = engine_calls s
   \<and> next_ref (snd (handle_events_loop env c client s)) = next_ref s"
proof (cases "well_behaved (dom (connections s)) (events (heap s c))")
  case True
  then show ?thesis by (simp add: loop_all frame_foldl_iteration)
next
  case False
  from first_bad [OF this] obtain pre k rest where
    "events (heap s c) = pre @ ConnectionIdRetired k # rest"
    "well_behaved (dom (connections s)) pre" "k \<notin> keys_after (dom (connections s)) pre"
    by blast
  from loop_abort [OF this] show ?thesis by (simp add: frame_foldl_iteration)
qed

lemma handle_events_raise:
  "handle_events_loop env c client s = (Some x, s1) \<Longrightarrow>
   handle_events env c client s = (Some x, s1)"
  by (simp add: handle_events_def)

lemma handle_events_ok:
  assumes wb: "well_behaved (dom (connections s)) (events (heap s c))"
    and ds: "datagrams_to_send env (now env (now_calls s)) ((heap s c)\<lparr>events := []\<rparr>) = (ds, q)"
  shows "handle_events env c client s =
     (None, (foldl (iteration env c client) s (events (heap s c)))
        \<lparr>now_calls := Suc (now_calls s), heap := (heap s)(c := q), sent := sent s @ ds,
         scheduled := scheduled s @ (case get_timer env q of None \<Rightarrow> [] | Some T \<Rightarrow> [(T, c)])\<rparr>)"
proof -
  let ?s1 = "foldl (iteration env c client) s (events (heap s c))"
  have h1: "heap ?s1 = (heap s)(c := (heap s c)\<lparr>events := []\<rparr>)"
    by (rule heap_foldl_iteration) simp
  have "datagrams_to_send env (now env (now_calls ?s1)) (heap ?s1 c) = (ds, q)"
    using ds by (simp add: h1 frame_foldl_iteration)
  from send_all_eq [OF this]
  have sa: "send_all env c ?s1 =
      ?s1\<lparr>now_calls := Suc (now_calls s), heap := (heap s)(c := q), sent := sent s @ ds\<rparr>"
    by (simp add: h1 frame_foldl_iteration)
  show ?thesis
    by (cases "get_timer env q")
       (simp_all add: handle_events_def loop_all [OF wb] sa frame_foldl_iteration)
qed

lemma handle_events_frame:
  "engine_calls (snd (handle_events env c client s)) = engine_calls s"
  "next_ref (snd (handle_events env c client s)) = next_ref s"
proof -
  obtain r s1 where l: "handle_events_loop env c client s = (r, s1)"
    by (cases "handle_events_loop env c client s")
  have f: "engine_calls s1 = engine_calls s" "next_ref s1 = next_ref s"
    using loop_frame [of env c client s] l by simp_all
  have g: "engine_calls (send_all env c s1) = engine_calls s1"
      "next_ref (send_all env c s1) = next_ref s1"
    by (simp_all add: send_all_def call_now_def foldl_send split: prod.splits)
  show "engine_calls (snd (handle_events env c client s)) = engine_calls s"
    by (cases r) (simp_all add: handle_events_def l f g Let_def split: option.splits)
  show "next_ref (snd (handle_events env c client s)) = next_ref s"
    by (cases r) (simp_all add: handle_events_def l f g Let_def split: option.splits)
qed

lemma handle_existing:
  assumes "pull_quic_header env d = Inr h"
    and "\<forall>v. version h = Some v \<longrightarrow> v \<in> set (supported_versions env)"
    and "connections s (destination_cid h) = Some r"
  shows "handle env s (RawData d a) =
     handle_events env r (Some a)
       (s\<lparr>now_calls := Suc (now_calls s),
          heap := (heap s)(r := receive_datagram env d a (now env (now_calls s)) (heap s r)),
          engine_calls := engine_calls s @ [ReceiveDatagram r d a (now env (now_calls s))]\<rparr>)"
  using assms by (cases s) (auto simp: handle_def call_now_def)

lemma handle_initial:
  assumes "pull_quic_header env d = Inr h"
    and "\<forall>v. version h = Some v \<longrightarrow> v \<in> set (supported_versions env)"
    and "connections s (destination_cid h) = None"
    and "packet_type h = Some (PACKET_TYPE_INITIAL env)"
  shows "handle env s (RawData d a) =
     handle_events env (next_ref s) (Some a)
       (s\<lparr>connections := (connections s)
            (destination_cid h \<mapsto> next_ref s, host_cid (new_connection env (next_ref s)) \<mapsto> next_ref s),
          heap := (heap s)(next_ref s := receive_datagram env d a (now env (now_calls s))
                                          (new_connection env (next_ref s))),
          next_ref := Suc (next_ref s),
          now_calls := Suc (now_calls s),
          engine_calls := engine_calls s
             @ [ReceiveDatagram (next_ref s) d a (now env (now_calls s))]\<rparr>)"
  using assms by (cases s) (auto simp: handle_def call_now_def Let_def)


lemma handle_events_ok_iff:
  "fst (handle_events env c client s) = None
     \<longleftrightarrow> well_behaved (dom (connections s)) (events (heap s c))"
proof -
  have "fst (handle_events env c client s) = None
        \<longleftrightarrow> fst (handle_events_loop env c client s) = None"
    by (cases "handle_events_loop env c client s")
       (auto simp: handle_events_def Let_def split: option.splits)
  then show ?thesis by (simp add: loop_ok_iff)
qed

lemma handle_events_fields:
  assumes "well_behaved (dom (connections s)) (events (heap s c))"
  shows "connections (snd (handle_events env c client s))
           = connections (foldl (iteration env c client) s (events (heap s c)))"
    and "http_connections (snd (handle_events env c client s))
           = http_connections (foldl (iteration env c client) s (events (heap s c)))"
    and "sessions_made (snd (handle_events env c client s))
           = sessions_made (foldl (iteration env c client) s (events (heap s c)))"
proof -
  obtain ds q where
    "datagrams_to_send env (now env (now_calls s)) ((heap s c)\<lparr>events := []\<rparr>) = (ds, q)"
    by (cases "datagrams_to_send env (now env (now_calls s)) ((heap s c)\<lparr>events := []\<rparr>)")
  note eq = handle_events_ok [OF assms this]
  show "connections (snd (handle_events env c client s))
           = connections (foldl (iteration env c client) s (events (heap s c)))"
    by (simp add: eq)
  show "http_connections (snd (handle_events env c client s))
           = http_connections (foldl (iteration env c client) s (events (heap s c)))"
    by (simp add: eq)
  show "sessions_made (snd (handle_events env c client s))
           = sessions_made (foldl (iteration env c client) s (events (heap s c)))"
    by (simp add: eq)
qed

lemma handle_initial_quiet:
  assumes "pull_quic_header env d = Inr h"
    and "\<forall>v. version h = Some v \<longrightarrow> v \<in> set (supported_versions env)"
    and "connections s (destination_cid h) = None"
    and "packet_type h = Some (PACKET_TYPE_INITIAL env)"
    and "events (receive_datagram env d a (now env (now_calls s))
           (new_connection env (next_ref s))) = []"
  shows "fst (handle env s (RawData d a)) = None"
    and "connections (snd (handle env s (RawData d a))) =
           (connections s)(destination_cid h \<mapsto> next_ref s,
              host_cid (new_connection env (next_ref s)) \<mapsto> next_ref s)"
proof -
  let ?mid = "s\<lparr>connections := (connections s)
            (destination_cid h \<mapsto> next_ref s, host_cid (new_connection env (next_ref s)) \<mapsto> next_ref s),
          heap := (heap s)(next_ref s := receive_datagram env d a (now env (now_calls s))
                                          (new_connection env (next_ref s))),
          next_ref := Suc (next_ref s),
          now_calls := Suc (now_calls s),
          engine_calls := engine_calls s
             @ [ReceiveDatagram (next_ref s) d a (now env (now_calls s))]\<rparr>"
  have eq: "handle env s (RawData d a) = handle_events env (next_ref s) (Some a) ?mid"
    by (rule handle_initial [OF assms(1-4)])
  have ev: "events (heap ?mid (next_ref s)) = []"
    using assms(5) by simp
  then have wb: "well_behaved (dom (connections ?mid)) (events (heap ?mid (next_ref s)))"
    by simp
  show "fst (handle env s (RawData d a)) = None"
    using wb by (simp only: eq handle_events_ok_iff)
  have "connections (snd (handle_events env (next_ref s) (Some a) ?mid)) = connections ?mid"
    by (simp only: handle_events_fields(1) [OF wb] ev foldl_Nil)
  then show "connections (snd (handle env s (RawData d a))) =
           (connections s)(destination_cid h \<mapsto> next_ref s,
              host_cid (new_connection env (next_ref s)) \<mapsto> next_ref s)"
    by (simp add: eq)
qed

subsection \<open>Datagram ingress\<close>

text \<open>
  C1. A RawData event whose payload the header parser rejects changes no state and sends
  nothing, but the parser's exception is not absorbed: \<open>handle\<close> has no handler around
  \<open>pull_quic_header\<close>, so the exception reaches the caller of \<open>handle\<close>.
\<close>
theorem parse_failure_propagates:
  "pull_quic_header env d = Inl x \<Longrightarrow> handle env s (RawData d a) = (Some x, s)"
  by (simp add: handle_def)

theorem parse_failure_propagates_witness:
  "pull_quic_header example_engine [] = Inl BufferReadError
   \<and> handle example_engine empty_protocol (RawData [] (''client'', 4433))
       = (Some BufferReadError, empty_protocol)"
  using parse_failure_propagates [of example_engine "[]" BufferReadError empty_protocol "(''client'', 4433)"]
  by (simp add: example_engine_def)

text \<open>
  The claim as the specification words it (the datagram is dropped and \<open>handle\<close>
  completes normally) fails on a one-byte datagram: \<open>handle\<close> ends with the parser's
  exception.
\<close>
theorem parse_failure_not_absorbed:
  "fst (handle example_engine empty_protocol (RawData [192] (''client'', 4433)))
     = Some BufferReadError"
  by (simp add: handle_def example_engine_def)

text \<open>
  C3. A datagram whose header carries a version outside the supported set: \<open>handle\<close>
  sends exactly one datagram, the version negotiation built from the header's
  destination identifier (as source) and source identifier (as destination), to the
  datagram's source address, and returns. Nothing else of the state changes: no registry
  entry, no connection object, no call of the engine.
\<close>
theorem version_negotiation:
  assumes "pull_quic_header env d = Inr h"
    and "version h = Some v"
    and "v \<notin> set (supported_versions env)"
  shows "handle env s (RawData d a) =
     (None, s\<lparr>sent := sent s @
        [(encode_quic_version_negotiation env (destination_cid h) (source_cid h)
            (supported_versions env), a)]\<rparr>)"
  using assms by (simp add: handle_def send_def)

theorem version_negotiation_witness:
  "handle example_engine (one_connection [] None) (RawData [192, 9, 5, 6, 7] (''client'', 4433))
     = (None, (one_connection [] None)\<lparr>sent := [([128, 5, 6, 7, 1], (''client'', 4433))]\<rparr>)"
  using version_negotiation [of example_engine "[192, 9, 5, 6, 7]"
      "\<lparr>version = Some 9, packet_type = Some 192, destination_cid = [5], source_cid = [6, 7]\<rparr>"
      9 "one_connection [] None" "(''client'', 4433)"]
  by (simp add: example_engine_def one_connection_def empty_protocol_def)

text \<open>
  C9. A datagram with a parseable header and a supported or absent version, whose
  destination identifier is not in the registry and whose packet type is not the initial
  one, is dropped: \<open>handle\<close> returns normally and the whole state (registry, session map,
  connection objects, datagrams sent, calls of the engine) is unchanged.
\<close>
theorem unknown_non_initial_dropped:
  assumes "pull_quic_header env d = Inr h"
    and "\<forall>v. version h = Some v \<longrightarrow> v \<in> set (supported_versions env)"
    and "connections s (destination_cid h) = None"
    and "packet_type h \<noteq> Some (PACKET_TYPE_INITIAL env)"
  shows "handle env s (RawData d a) = (None, s)"
  using assms by (auto simp: handle_def)

theorem unknown_non_initial_dropped_witness:
  "handle example_engine (one_connection [] None) (RawData [64, 0, 8] (''client'', 4433))
     = (None, one_connection [] None)"
  using unknown_non_initial_dropped [of example_engine "[64, 0, 8]"
      "\<lparr>version = None, packet_type = Some 64, destination_cid = [8], source_cid = []\<rparr>"
      "one_connection [] None" "(''client'', 4433)"]
  by (simp add: example_engine_def one_connection_def empty_protocol_def)

text \<open>
  C4, as the code has it. An Initial-type datagram with a supported (or absent) version
  whose destination identifier is not in the registry: \<open>handle\<close> constructs one
  connection (the next reference of the store), stores it in the registry under two
  keys, the header's destination identifier and the connection's \<open>host_cid\<close>, feeds the
  datagram to the engine for that connection, and runs the dispatcher on the resulting
  state. The number of new registry entries is two exactly when the engine's \<open>host_cid\<close>
  is neither the destination identifier nor already a key, and one otherwise: the second
  assignment then lands on an existing key. Whatever the dispatcher then does, exactly
  one connection has been created and the engine has been fed exactly this datagram;
  when the engine queues no event for the datagram, the registry after \<open>handle\<close> is the
  one with the two keys stored.
\<close>
theorem initial_datagram_creates_connection:
  assumes "pull_quic_header env d = Inr h"
    and "\<forall>v. version h = Some v \<longrightarrow> v \<in> set (supported_versions env)"
    and "connections s (destination_cid h) = None"
    and "packet_type h = Some (PACKET_TYPE_INITIAL env)"
  shows "let r = next_ref s; q = new_connection env r; t = now env (now_calls s);
             mid = s\<lparr>connections := (connections s)(destination_cid h \<mapsto> r, host_cid q \<mapsto> r),
                     heap := (heap s)(r := receive_datagram env d a t q),
                     next_ref := Suc r,
                     now_calls := Suc (now_calls s),
                     engine_calls := engine_calls s @ [ReceiveDatagram r d a t]\<rparr>
         in handle env s (RawData d a) = handle_events env r (Some a) mid
          \<and> dom (connections mid) = dom (connections s) \<union> {destination_cid h, host_cid q}
          \<and> connections mid (destination_cid h) = Some r
          \<and> connections mid (host_cid q) = Some r
          \<and> card (dom (connections mid) - dom (connections s))
               = (if host_cid q = destination_cid h \<or> host_cid q \<in> dom (connections s)
                  then 1 else 2)
          \<and> next_ref (snd (handle env s (RawData d a))) = Suc (next_ref s)
          \<and> engine_calls (snd (handle env s (RawData d a)))
               = engine_calls s @ [ReceiveDatagram r d a t]
          \<and> (events (receive_datagram env d a t q) = [] \<longrightarrow>
                fst (handle env s (RawData d a)) = None
                \<and> connections (snd (handle env s (RawData d a))) = connections mid)"
proof -
  let ?r = "next_ref s"
  let ?q = "new_connection env ?r"
  let ?t = "now env (now_calls s)"
  let ?mid = "s\<lparr>connections := (connections s)(destination_cid h \<mapsto> ?r, host_cid ?q \<mapsto> ?r),
                 heap := (heap s)(?r := receive_datagram env d a ?t ?q),
                 next_ref := Suc ?r,
                 now_calls := Suc (now_calls s),
                 engine_calls := engine_calls s @ [ReceiveDatagram ?r d a ?t]\<rparr>"
  have eq: "handle env s (RawData d a) = handle_events env ?r (Some a) ?mid"
    by (rule handle_initial [OF assms])
  have dom: "dom (connections ?mid) = dom (connections s) \<union> {destination_cid h, host_cid ?q}"
    by auto
  have absent: "destination_cid h \<notin> dom (connections s)"
    using assms(3) by (simp add: domIff)
  have new: "dom (connections ?mid) - dom (connections s)
      = (if host_cid ?q \<in> dom (connections s) then {destination_cid h}
         else {destination_cid h, host_cid ?q})"
    using absent by (auto simp: dom)
  have count: "card (dom (connections ?mid) - dom (connections s))
      = (if host_cid ?q = destination_cid h \<or> host_cid ?q \<in> dom (connections s)
         then 1 else 2)"
    by (subst new) (auto simp: card_insert_if)
  have frame: "next_ref (snd (handle env s (RawData d a))) = Suc (next_ref s)"
    "engine_calls (snd (handle env s (RawData d a))) = engine_calls s @ [ReceiveDatagram ?r d a ?t]"
    by (simp_all add: eq handle_events_frame)
  have quiet: "fst (handle env s (RawData d a)) = None
      \<and> connections (snd (handle env s (RawData d a))) = connections ?mid"
    if "events (receive_datagram env d a ?t ?q) = []"
    using handle_initial_quiet [OF assms that] by simp
  have m1: "connections ?mid (destination_cid h) = Some ?r"
    and m2: "connections ?mid (host_cid ?q) = Some ?r"
    by simp_all
  from eq dom m1 m2 count frame quiet show ?thesis
    unfolding Let_def by (intro conjI impI) (assumption | blast)+
qed

lemma example_initial_header:
  "pull_quic_header quiet_engine [192, 1, 5, 6]
     = Inr \<lparr>version = Some 1, packet_type = Some 192, destination_cid = [5], source_cid = [6]\<rparr>"
  by (simp add: quiet_engine_def example_engine_def)

lemma quiet_engine_facts:
  "supported_versions quiet_engine = [1]"
  "PACKET_TYPE_INITIAL quiet_engine = 192"
  "new_connection quiet_engine 0
     = \<lparr>host_cid = [100], events = [], close_at = None, engine_state = 0\<rparr>"
  "receive_datagram quiet_engine d a t q = q"
  "now quiet_engine 0 = 0"
  by (simp_all add: quiet_engine_def example_engine_def)

lemma empty_protocol_facts:
  "connections empty_protocol = Map.empty"
  "next_ref empty_protocol = 0"
  "now_calls empty_protocol = 0"
  "engine_calls empty_protocol = []"
  by (simp_all add: empty_protocol_def)

theorem initial_datagram_creates_connection_witness:
  "connections empty_protocol [5] = None
   \<and> fst (handle quiet_engine empty_protocol (RawData [192, 1, 5, 6] (''client'', 4433))) = None
   \<and> connections (snd (handle quiet_engine empty_protocol (RawData [192, 1, 5, 6] (''client'', 4433))))
        = [[5] \<mapsto> 0, [100] \<mapsto> 0]
   \<and> next_ref (snd (handle quiet_engine empty_protocol (RawData [192, 1, 5, 6] (''client'', 4433)))) = 1
   \<and> engine_calls (snd (handle quiet_engine empty_protocol (RawData [192, 1, 5, 6] (''client'', 4433))))
        = [ReceiveDatagram 0 [192, 1, 5, 6] (''client'', 4433) 0]"
proof -
  let ?h = "\<lparr>version = Some 1, packet_type = Some 192, destination_cid = [5], source_cid = [6]\<rparr>"
  have h2: "\<forall>v. version ?h = Some v \<longrightarrow> v \<in> set (supported_versions quiet_engine)"
    by (simp add: quiet_engine_facts)
  have h3: "connections empty_protocol (destination_cid ?h) = None"
    by (simp add: empty_protocol_facts)
  have h4: "packet_type ?h = Some (PACKET_TYPE_INITIAL quiet_engine)"
    by (simp add: quiet_engine_facts)
  note th = initial_datagram_creates_connection [OF example_initial_header h2 h3 h4,
      of "(''client'', 4433)", unfolded Let_def,
      THEN conjunct2, THEN conjunct2, THEN conjunct2, THEN conjunct2, THEN conjunct2]
  have a: "connections empty_protocol [5] = None"
    by (simp add: empty_protocol_facts)
  from th have b: "fst (handle quiet_engine empty_protocol
      (RawData [192, 1, 5, 6] (''client'', 4433))) = None"
    by (simp add: quiet_engine_facts empty_protocol_facts)
  from th have c: "connections (snd (handle quiet_engine empty_protocol
      (RawData [192, 1, 5, 6] (''client'', 4433)))) = [[5] \<mapsto> 0, [100] \<mapsto> 0]"
    by (simp add: quiet_engine_facts empty_protocol_facts)
  from th have d: "next_ref (snd (handle quiet_engine empty_protocol
      (RawData [192, 1, 5, 6] (''client'', 4433)))) = 1"
    by (simp add: quiet_engine_facts empty_protocol_facts)
  from th have e: "engine_calls (snd (handle quiet_engine empty_protocol
      (RawData [192, 1, 5, 6] (''client'', 4433))))
        = [ReceiveDatagram 0 [192, 1, 5, 6] (''client'', 4433) 0]"
    by (simp add: quiet_engine_facts empty_protocol_facts)
  from a b c d e show ?thesis by (intro conjI)
qed

text \<open>
  The claim as the specification words it (exactly two new registry entries for every
  such datagram) fails when the engine draws as \<open>host_cid\<close> the identifier the client
  chose: the datagram below is of the initial type, has a supported version and an
  unknown destination identifier \<open>[100]\<close>, the new connection's \<open>host_cid\<close> is \<open>[100]\<close>
  too, and after \<open>handle\<close> the registry has gained one entry.
\<close>
theorem initial_datagram_one_new_entry:
  "connections empty_protocol [100] = None
   \<and> fst (handle quiet_engine empty_protocol (RawData [192, 1, 100, 6] (''client'', 4433))) = None
   \<and> next_ref (snd (handle quiet_engine empty_protocol (RawData [192, 1, 100, 6] (''client'', 4433)))) = 1
   \<and> connections (snd (handle quiet_engine empty_protocol (RawData [192, 1, 100, 6] (''client'', 4433))))
        = [[100] \<mapsto> 0]
   \<and> card (dom (connections (snd (handle quiet_engine empty_protocol
              (RawData [192, 1, 100, 6] (''client'', 4433)))))
           - dom (connections empty_protocol)) = 1"
proof -
  let ?h = "\<lparr>version = Some 1, packet_type = Some 192, destination_cid = [100], source_cid = [6]\<rparr>"
  have h1: "pull_quic_header quiet_engine [192, 1, 100, 6] = Inr ?h"
    by (simp add: quiet_engine_def example_engine_def)
  have h2: "\<forall>v. version ?h = Some v \<longrightarrow> v \<in> set (supported_versions quiet_engine)"
    by (simp add: quiet_engine_facts)
  have h3: "connections empty_protocol (destination_cid ?h) = None"
    by (simp add: empty_protocol_facts)
  have h4: "packet_type ?h = Some (PACKET_TYPE_INITIAL quiet_engine)"
    by (simp add: quiet_engine_facts)
  have h5: "events (receive_datagram quiet_engine [192, 1, 100, 6] (''client'', 4433)
      (now quiet_engine (now_calls empty_protocol))
      (new_connection quiet_engine (next_ref empty_protocol))) = []"
    by (simp add: quiet_engine_facts empty_protocol_facts)
  have a: "connections empty_protocol [100] = None"
    by (simp add: empty_protocol_facts)
  have b: "fst (handle quiet_engine empty_protocol
      (RawData [192, 1, 100, 6] (''client'', 4433))) = None"
    by (rule handle_initial_quiet(1) [OF h1 h2 h3 h4 h5])
  have c: "connections (snd (handle quiet_engine empty_protocol
      (RawData [192, 1, 100, 6] (''client'', 4433)))) = [[100] \<mapsto> 0]"
    using handle_initial_quiet(2) [OF h1 h2 h3 h4 h5]
    by (simp add: quiet_engine_facts empty_protocol_facts)
  have d: "next_ref (snd (handle quiet_engine empty_protocol
      (RawData [192, 1, 100, 6] (''client'', 4433)))) = 1"
    using handle_initial [OF h1 h2 h3 h4, of "(''client'', 4433)"]
    by (simp add: handle_events_frame empty_protocol_facts)
  have e: "card (dom (connections (snd (handle quiet_engine empty_protocol
              (RawData [192, 1, 100, 6] (''client'', 4433)))))
           - dom (connections empty_protocol)) = 1"
    by (simp add: c empty_protocol_facts)
  from a b c d e show ?thesis by (intro conjI)
qed

subsection \<open>The dispatcher\<close>

text \<open>
  C5. A batch that \<open>_handle_events\<close> completes: the events are taken in the order of the
  engine's queue, each is reacted to and then forwarded to the connection's session if
  there is one at that point. So, with \<open>q\<close> the queue drained: if a session is created
  in the batch, the connection's session has received exactly the events from the
  \<open>ProtocolNegotiated\<close> that created it onwards, that event included, in the order of
  \<open>q\<close>; a session that existed before has received all of \<open>q\<close>, in order, after what
  it had received; and with no session nothing is forwarded.
\<close>

theorem session_receives_events_in_order:
  assumes "fst (handle_events env c client s) = None"
  shows "http_connections (snd (handle_events env c client s)) c =
     (if ProtocolNegotiated \<in> set (events (heap s c)) then
        Some \<lparr>h3_client = client, h3_server = server env, h3_connection = c,
              h3_serial = sessions_made s + count_list (events (heap s c)) ProtocolNegotiated - 1,
              h3_handled = ProtocolNegotiated #
                 rev (takeWhile (\<lambda>e. e \<noteq> ProtocolNegotiated) (rev (events (heap s c))))\<rparr>
      else map_option (\<lambda>h. h\<lparr>h3_handled := h3_handled h @ events (heap s c)\<rparr>)
             (http_connections s c))"
proof -
  from assms have wb: "well_behaved (dom (connections s)) (events (heap s c))"
    by (simp add: handle_events_ok_iff)
  show ?thesis
    unfolding handle_events_fields(2) [OF wb]
    by (rule http_connections_foldl_iteration)
qed

theorem session_receives_events_in_order_witness:
  "fst (handle_events example_engine 0 None
          (one_connection [OtherQuicEvent 3, ProtocolNegotiated, ConnectionIdIssued [9]] None)) = None
   \<and> map_option h3_handled
        (http_connections (snd (handle_events example_engine 0 None
          (one_connection [OtherQuicEvent 3, ProtocolNegotiated, ConnectionIdIssued [9]] None))) 0)
       = Some [ProtocolNegotiated, ConnectionIdIssued [9]]"
proof -
  have ok: "fst (handle_events example_engine 0 None
          (one_connection [OtherQuicEvent 3, ProtocolNegotiated, ConnectionIdIssued [9]] None)) = None"
    by (simp add: handle_events_ok_iff one_connection_def empty_protocol_def)
  from session_receives_events_in_order [OF ok] ok show ?thesis
    by (simp add: one_connection_def empty_protocol_def)
qed

text \<open>
  C2, as the code has it. In a batch that \<open>_handle_events\<close> completes, one session is
  constructed for each \<open>ProtocolNegotiated\<close> event drained and none otherwise; the
  connection has a session afterwards exactly if it had one before or such an event was
  drained; the sessions of other connections are untouched. The session map holds one
  session per connection: the reaction to \<open>ProtocolNegotiated\<close> never raises and always
  stores a newly constructed session, so after a repeated event the connection's session
  is the one constructed last and the earlier one is gone.
\<close>

theorem session_per_negotiation:
  assumes "fst (handle_events env c client s) = None"
  shows "sessions_made (snd (handle_events env c client s))
           = sessions_made s + count_list (events (heap s c)) ProtocolNegotiated
     \<and> (http_connections (snd (handle_events env c client s)) c \<noteq> None
          \<longleftrightarrow> http_connections s c \<noteq> None \<or> ProtocolNegotiated \<in> set (events (heap s c)))
     \<and> (ProtocolNegotiated \<in> set (events (heap s c)) \<longrightarrow>
          map_option h3_serial (http_connections (snd (handle_events env c client s)) c)
            = Some (sessions_made s + count_list (events (heap s c)) ProtocolNegotiated - 1))
     \<and> (\<forall>c'. c' \<noteq> c \<longrightarrow>
          http_connections (snd (handle_events env c client s)) c' = http_connections s c')
     \<and> fst (react env c client ProtocolNegotiated s1) = None
     \<and> map_option h3_serial (http_connections (snd (react env c client ProtocolNegotiated s1)) c)
          = Some (sessions_made s1)"
proof -
  from assms have wb: "well_behaved (dom (connections s)) (events (heap s c))"
    by (simp add: handle_events_ok_iff)
  note f = handle_events_fields [OF wb, of env client]
  have "sessions_made (snd (handle_events env c client s))
           = sessions_made s + count_list (events (heap s c)) ProtocolNegotiated"
    by (simp add: f sessions_made_foldl_iteration)
  moreover have "http_connections (snd (handle_events env c client s)) c \<noteq> None
          \<longleftrightarrow> http_connections s c \<noteq> None \<or> ProtocolNegotiated \<in> set (events (heap s c))"
    by (simp add: f http_connections_foldl_iteration)
  moreover have "ProtocolNegotiated \<in> set (events (heap s c)) \<longrightarrow>
          map_option h3_serial (http_connections (snd (handle_events env c client s)) c)
            = Some (sessions_made s + count_list (events (heap s c)) ProtocolNegotiated - 1)"
    by (simp add: f http_connections_foldl_iteration)
  moreover have "\<forall>c'. c' \<noteq> c \<longrightarrow>
          http_connections (snd (handle_events env c client s)) c' = http_connections s c'"
    by (simp add: f http_connections_other)
  ultimately show ?thesis by simp
qed

theorem session_per_negotiation_witness:
  "fst (handle_events example_engine 0 None
          (one_connection [ProtocolNegotiated, OtherQuicEvent 7] None)) = None
   \<and> sessions_made (snd (handle_events example_engine 0 None
          (one_connection [ProtocolNegotiated, OtherQuicEvent 7] None))) = 1
   \<and> map_option h3_serial (http_connections (snd (handle_events example_engine 0 None
          (one_connection [ProtocolNegotiated, OtherQuicEvent 7] None))) 0) = Some 0"
proof -
  have ok: "fst (handle_events example_engine 0 None
          (one_connection [ProtocolNegotiated, OtherQuicEvent 7] None)) = None"
    by (simp add: handle_events_ok_iff one_connection_def empty_protocol_def)
  from session_per_negotiation [OF ok] ok show ?thesis
    by (simp add: one_connection_def empty_protocol_def)
qed

text \<open>
  The claim as the specification words it (a second \<open>ProtocolNegotiated\<close> is a
  detectable logic error, the live session is not replaced) fails: the batch below
  completes without an exception, two sessions are constructed, and the connection is
  left with the second one, which has seen only the second event.
\<close>
theorem second_negotiation_replaces_session:
  "fst (handle_events example_engine 0 None
          (one_connection [ProtocolNegotiated, OtherQuicEvent 7, ProtocolNegotiated] None)) = None
   \<and> sessions_made (snd (handle_events example_engine 0 None
          (one_connection [ProtocolNegotiated, OtherQuicEvent 7, ProtocolNegotiated] None))) = 2
   \<and> map_option h3_serial (http_connections (snd (handle_events example_engine 0 None
          (one_connection [ProtocolNegotiated, OtherQuicEvent 7, ProtocolNegotiated] None))) 0) = Some 1
   \<and> map_option h3_handled (http_connections (snd (handle_events example_engine 0 None
          (one_connection [ProtocolNegotiated, OtherQuicEvent 7, ProtocolNegotiated] None))) 0)
       = Some [ProtocolNegotiated]"
proof -
  let ?s = "one_connection [ProtocolNegotiated, OtherQuicEvent 7, ProtocolNegotiated] None"
  have ev: "events (heap ?s 0) = [ProtocolNegotiated, OtherQuicEvent 7, ProtocolNegotiated]"
    by (simp add: one_connection_def empty_protocol_def)
  have wb: "well_behaved (dom (connections ?s)) (events (heap ?s 0))"
    by (simp add: ev)
  have sm: "sessions_made ?s = 0" "http_connections ?s 0 = None"
    by (simp_all add: one_connection_def empty_protocol_def)
  note f = handle_events_fields [OF wb, of example_engine None]
  have ok: "fst (handle_events example_engine 0 None ?s) = None"
    using wb by (simp only: handle_events_ok_iff)
  have made: "sessions_made (snd (handle_events example_engine 0 None ?s))
      = sessions_made ?s + count_list (events (heap ?s 0)) ProtocolNegotiated"
    by (simp only: f sessions_made_foldl_iteration)
  have live: "http_connections (snd (handle_events example_engine 0 None ?s)) 0 =
     (if ProtocolNegotiated \<in> set (events (heap ?s 0)) then
        Some \<lparr>h3_client = None, h3_server = server example_engine, h3_connection = 0,
              h3_serial = sessions_made ?s + count_list (events (heap ?s 0)) ProtocolNegotiated - 1,
              h3_handled = ProtocolNegotiated #
                 rev (takeWhile (\<lambda>e. e \<noteq> ProtocolNegotiated) (rev (events (heap ?s 0))))\<rparr>
      else map_option (\<lambda>h. h\<lparr>h3_handled := h3_handled h @ events (heap ?s 0)\<rparr>)
             (http_connections ?s 0))"
    by (simp only: f http_connections_foldl_iteration)
  show ?thesis
    by (simp add: ok made live ev sm)
qed

lemma keys_after_append:
  "keys_after K (xs @ ys) = keys_after (keys_after K xs) ys"
  by (induction K xs rule: keys_after.induct) simp_all

lemma keys_after_retire:
  "k \<notin> keys_after K (pre @ [ConnectionIdRetired k])"
  by (simp add: keys_after_append)

lemma well_behaved_retire:
  "well_behaved K (pre @ ConnectionIdRetired k # rest) \<Longrightarrow> k \<in> keys_after K pre"
  by (simp add: well_behaved_append)

text \<open>
  C6. Under a well-behaved engine (every retired identifier is a key of the registry
  when its event is reached) the batch completes, and the registry, a dictionary and
  hence a function from identifiers to at most one connection each, is determined
  identifier by identifier by the last event of the batch that names it: issued last, it
  maps to this connection and to no other; retired last, it is not a key; named by no
  event, it is unchanged. The keys grow by the issued and shrink by the retired
  identifiers, and every retire event finds its identifier among the keys and removes
  it. A connection may thus own any number of identifiers.
\<close>
theorem registry_after_events:
  assumes "well_behaved (dom (connections s)) (events (heap s c))"
  shows "fst (handle_events env c client s) = None
     \<and> connections (snd (handle_events env c client s)) k =
         (case find (touches k) (rev (events (heap s c))) of
            None \<Rightarrow> connections s k
          | Some e \<Rightarrow> if e = ConnectionIdIssued k then Some c else None)
     \<and> dom (connections (snd (handle_events env c client s)))
          = keys_after (dom (connections s)) (events (heap s c))
     \<and> (\<forall>pre rest. events (heap s c) = pre @ ConnectionIdRetired k # rest \<longrightarrow>
           k \<in> keys_after (dom (connections s)) pre
           \<and> k \<notin> keys_after (dom (connections s)) (pre @ [ConnectionIdRetired k]))"
proof (intro conjI allI impI)
  note f = handle_events_fields [OF assms, of env client]
  show "fst (handle_events env c client s) = None"
    using assms by (simp only: handle_events_ok_iff)
  show "connections (snd (handle_events env c client s)) k =
         (case find (touches k) (rev (events (heap s c))) of
            None \<Rightarrow> connections s k
          | Some e \<Rightarrow> if e = ConnectionIdIssued k then Some c else None)"
    by (simp only: f connections_foldl_iteration)
  show "dom (connections (snd (handle_events env c client s)))
          = keys_after (dom (connections s)) (events (heap s c))"
    by (simp only: f dom_foldl_iteration)
next
  fix pre rest
  assume "events (heap s c) = pre @ ConnectionIdRetired k # rest"
  with assms show "k \<in> keys_after (dom (connections s)) pre"
    by (simp only: well_behaved_retire)
next
  fix pre rest
  show "k \<notin> keys_after (dom (connections s)) (pre @ [ConnectionIdRetired k])"
    by (rule keys_after_retire)
qed


lemma dom_one_connection: "dom (connections (one_connection q ca)) = {[5], [100]}"
  by (simp add: one_connection_def empty_protocol_def insert_commute)

lemma events_one_connection: "events (heap (one_connection q ca) 0) = q"
  by (simp add: one_connection_def empty_protocol_def)

theorem registry_after_events_witness:
  "well_behaved (dom (connections (one_connection
      [ConnectionIdIssued [7], ConnectionIdIssued [8], ConnectionIdRetired [7]] None)))
      [ConnectionIdIssued [7], ConnectionIdIssued [8], ConnectionIdRetired [7]]
   \<and> connections (snd (handle_events example_engine 0 None (one_connection
      [ConnectionIdIssued [7], ConnectionIdIssued [8], ConnectionIdRetired [7]] None))) [7] = None
   \<and> connections (snd (handle_events example_engine 0 None (one_connection
      [ConnectionIdIssued [7], ConnectionIdIssued [8], ConnectionIdRetired [7]] None))) [8] = Some 0"
proof -
  let ?q = "[ConnectionIdIssued [7], ConnectionIdIssued [8], ConnectionIdRetired [7]]"
  have wb0: "well_behaved (dom (connections (one_connection ?q None))) ?q"
    by (simp add: dom_one_connection)
  then have wb: "well_behaved (dom (connections (one_connection ?q None)))
              (events (heap (one_connection ?q None) 0))"
    by (simp only: events_one_connection)
  have a: "connections (snd (handle_events example_engine 0 None (one_connection ?q None))) [7] = None"
    using registry_after_events [OF wb, of example_engine None "[7]"]
    by (simp add: events_one_connection touches_def)
  have b: "connections (snd (handle_events example_engine 0 None (one_connection ?q None))) [8] = Some 0"
    using registry_after_events [OF wb, of example_engine None "[8]"]
    by (simp add: events_one_connection touches_def)
  from wb0 a b show ?thesis by (intro conjI)
qed

text \<open>
  C8. When the dispatcher reaches an \<open>IdentifierRetired\<close> event whose identifier is not a
  key of the registry at that point (the events before it in the batch having been
  processed), \<open>del self.connections[...]\<close> raises \<open>KeyError\<close> and \<open>_handle_events\<close> ends
  with that exception: nothing catches it. The rest of the queue stays in the engine,
  nothing is flushed and no timer is scheduled.
\<close>
theorem retire_absent_raises:
  assumes "events (heap s c) = pre @ ConnectionIdRetired k # rest"
    and "well_behaved (dom (connections s)) pre"
    and "k \<notin> keys_after (dom (connections s)) pre"
  shows "fst (handle_events env c client s) = Some (KeyError k)
     \<and> events (heap (snd (handle_events env c client s)) c) = rest
     \<and> connections (snd (handle_events env c client s)) k = None
     \<and> sent (snd (handle_events env c client s)) = sent s
     \<and> scheduled (snd (handle_events env c client s)) = scheduled s
     \<and> now_calls (snd (handle_events env c client s)) = now_calls s"
proof -
  let ?s1 = "(foldl (iteration env c client) s pre)
        \<lparr>heap := (heap s)(c := (heap s c)\<lparr>events := rest\<rparr>)\<rparr>"
  have "handle_events_loop env c client s = (Some (KeyError k), ?s1)"
    by (rule loop_abort [OF assms])
  then have eq: "handle_events env c client s = (Some (KeyError k), ?s1)"
    by (rule handle_events_raise)
  have "k \<notin> dom (connections (foldl (iteration env c client) s pre))"
    using assms(3) by (simp only: dom_foldl_iteration not_False_eq_True)
  then have "connections (foldl (iteration env c client) s pre) k = None"
    by (simp add: domIff)
  then show ?thesis
    by (simp add: eq frame_foldl_iteration)
qed

theorem retire_absent_raises_witness:
  "fst (handle_events example_engine 0 None
          (one_connection [ConnectionIdRetired [100], ConnectionIdRetired [100], OtherQuicEvent 1] None))
     = Some (KeyError [100])
   \<and> events (heap (snd (handle_events example_engine 0 None
          (one_connection [ConnectionIdRetired [100], ConnectionIdRetired [100], OtherQuicEvent 1] None))) 0)
     = [OtherQuicEvent 1]"
proof -
  let ?s = "one_connection [ConnectionIdRetired [100], ConnectionIdRetired [100], OtherQuicEvent 1] None"
  have ev: "events (heap ?s 0)
      = [ConnectionIdRetired [100]] @ ConnectionIdRetired [100] # [OtherQuicEvent 1]"
    by (simp add: events_one_connection)
  have wb: "well_behaved (dom (connections ?s)) [ConnectionIdRetired [100]]"
    by (simp add: dom_one_connection)
  have ab: "[100] \<notin> keys_after (dom (connections ?s)) [ConnectionIdRetired [100]]"
    by (simp add: dom_one_connection)
  note th = retire_absent_raises [OF ev wb ab, of example_engine None]
  from th have a: "fst (handle_events example_engine 0 None ?s) = Some (KeyError [100])"
    by (rule conjunct1)
  from th have b: "events (heap (snd (handle_events example_engine 0 None ?s)) 0)
      = [OtherQuicEvent 1]"
    by (rule conjunct2 [THEN conjunct1])
  from a b show ?thesis by (rule conjI)
qed

subsection \<open>Flush and timer\<close>

lemma handle_timer_idle:
  "close_at (heap s c) = None \<Longrightarrow> handle_timer env c s = (None, s)"
  by (simp add: handle_timer_def)

lemma handle_timer_active:
  "close_at (heap s c) \<noteq> None \<Longrightarrow>
   handle_timer env c s =
     handle_events env c None
       (s\<lparr>now_calls := Suc (now_calls s),
          heap := (heap s)(c := conn_handle_timer env (now env (now_calls s)) (heap s c)),
          engine_calls := engine_calls s @ [HandleTimer c (now env (now_calls s))]\<rparr>)"
  by (cases s) (simp add: handle_timer_def call_now_def)

text \<open>
  C7. When the loop of a dispatch batch has completed, \<open>_handle_events\<close> first hands all
  datagrams the engine has queued to the transport, in order (\<open>ds\<close>, obtained from the
  connection with its event queue drained), and then asks the engine, in the state \<open>q\<close>
  left by the flush, for its next deadline: with no deadline nothing is scheduled, with
  a deadline \<open>T\<close> exactly one callback \<open>(T, c)\<close> is registered. When a callback for
  \<open>c\<close> fires in a state \<open>s'\<close>: if \<open>_close_at\<close> is \<open>None\<close> nothing changes; otherwise the
  engine's timer handling runs and the dispatcher is run again for \<open>c\<close>, with no client
  address.
\<close>
theorem flush_then_schedule:
  assumes "fst (handle_events_loop env c client s) = None"
    and "datagrams_to_send env (now env (now_calls s)) ((heap s c)\<lparr>events := []\<rparr>) = (ds, q)"
  shows "fst (handle_events env c client s) = None
     \<and> sent (snd (handle_events env c client s)) = sent s @ ds
     \<and> heap (snd (handle_events env c client s)) = (heap s)(c := q)
     \<and> scheduled (snd (handle_events env c client s))
          = scheduled s @ (case get_timer env q of None \<Rightarrow> [] | Some T \<Rightarrow> [(T, c)])
     \<and> (close_at (heap s' c) = None \<longrightarrow> handle_timer env c s' = (None, s'))
     \<and> (close_at (heap s' c) \<noteq> None \<longrightarrow>
          handle_timer env c s' =
            handle_events env c None
              (s'\<lparr>now_calls := Suc (now_calls s'),
                  heap := (heap s')(c := conn_handle_timer env (now env (now_calls s')) (heap s' c)),
                  engine_calls := engine_calls s' @ [HandleTimer c (now env (now_calls s'))]\<rparr>))"
proof (intro conjI impI)
  from assms(1) have wb: "well_behaved (dom (connections s)) (events (heap s c))"
    by (simp only: loop_ok_iff)
  note eq = handle_events_ok [OF wb assms(2), of client]
  show "fst (handle_events env c client s) = None"
    by (simp add: eq)
  show "sent (snd (handle_events env c client s)) = sent s @ ds"
    by (simp add: eq)
  show "heap (snd (handle_events env c client s)) = (heap s)(c := q)"
    by (simp add: eq)
  show "scheduled (snd (handle_events env c client s))
          = scheduled s @ (case get_timer env q of None \<Rightarrow> [] | Some T \<Rightarrow> [(T, c)])"
    by (simp add: eq)
next
  assume "close_at (heap s' c) = None"
  then show "handle_timer env c s' = (None, s')"
    by (rule handle_timer_idle)
next
  assume "close_at (heap s' c) \<noteq> None"
  then show "handle_timer env c s' =
            handle_events env c None
              (s'\<lparr>now_calls := Suc (now_calls s'),
                  heap := (heap s')(c := conn_handle_timer env (now env (now_calls s')) (heap s' c)),
                  engine_calls := engine_calls s' @ [HandleTimer c (now env (now_calls s'))]\<rparr>)"
    by (rule handle_timer_active)
qed


lemma close_at_one_connection: "close_at (heap (one_connection q ca) 0) = ca"
  by (simp add: one_connection_def empty_protocol_def)

lemma example_datagrams_to_send:
  "datagrams_to_send example_engine
     (now example_engine (now_calls (one_connection q ca)))
     ((heap (one_connection q ca) 0)\<lparr>events := []\<rparr>)
   = ([([0], (''client'', 4433))],
      \<lparr>host_cid = [100], events = [], close_at = ca, engine_state = 1\<rparr>)"
  by (simp add: example_engine_def one_connection_def empty_protocol_def)

theorem flush_then_schedule_witness:
  "fst (handle_events_loop example_engine 0 None (one_connection [OtherQuicEvent 2] (Some 5))) = None
   \<and> sent (snd (handle_events example_engine 0 None (one_connection [OtherQuicEvent 2] (Some 5))))
       = [([0], (''client'', 4433))]
   \<and> scheduled (snd (handle_events example_engine 0 None (one_connection [OtherQuicEvent 2] (Some 5))))
       = [(5, 0)]
   \<and> handle_timer example_engine 0 (one_connection [] None) = (None, one_connection [] None)"
proof -
  let ?s = "one_connection [OtherQuicEvent 2] (Some 5)"
  have ok: "fst (handle_events_loop example_engine 0 None ?s) = None"
    by (simp add: loop_ok_iff events_one_connection)
  note th = flush_then_schedule [OF ok example_datagrams_to_send, of "one_connection [] None"]
  have init: "sent ?s = []" "scheduled ?s = []"
    by (simp_all add: one_connection_def empty_protocol_def)
  from th have a: "sent (snd (handle_events example_engine 0 None ?s)) = [([0], (''client'', 4433))]"
    by (simp add: init)
  from th have b: "scheduled (snd (handle_events example_engine 0 None ?s)) = [(5, 0)]"
    by (simp add: init example_engine_def)
  from th have c: "handle_timer example_engine 0 (one_connection [] None)
      = (None, one_connection [] None)"
    by (simp add: close_at_one_connection)
  from ok a b c show ?thesis by (intro conjI)
qed

lemma session_client:
  assumes "fst (handle_events env c client s) = None"
    and "ProtocolNegotiated \<in> set (events (heap s c))"
  shows "map_option h3_client (http_connections (snd (handle_events env c client s)) c)
           = Some client"
proof -
  from assms(1) have wb: "well_behaved (dom (connections s)) (events (heap s c))"
    by (simp only: handle_events_ok_iff)
  show ?thesis
    unfolding handle_events_fields(2) [OF wb]
    using assms(2) by (simp add: http_connections_foldl_iteration)
qed

text \<open>
  C10. The client address of a session is the \<open>client\<close> argument of the batch that
  drains the \<open>ProtocolNegotiated\<close> event. \<open>_handle_timer\<close> calls \<open>_handle_events\<close> with
  \<open>None\<close>: a session created in a batch entered from a timer has client address \<open>None\<close>.
  \<open>handle\<close> passes the datagram's source address: a session created in a batch entered
  from \<open>handle\<close>, for a connection found in the registry or just created, has that
  address. (Batches that complete; the event is in the queue the engine holds after its
  timer handling, or after it received the datagram.)
\<close>
theorem session_client_address:
  "(close_at (heap s c) \<noteq> None
      \<and> ProtocolNegotiated \<in> set (events (conn_handle_timer env (now env (now_calls s)) (heap s c)))
      \<and> fst (handle_timer env c s) = None
     \<longrightarrow> map_option h3_client (http_connections (snd (handle_timer env c s)) c) = Some None)
   \<and> (pull_quic_header env d = Inr h
      \<and> (\<forall>v. version h = Some v \<longrightarrow> v \<in> set (supported_versions env))
      \<and> connections s (destination_cid h) = Some r
      \<and> ProtocolNegotiated \<in> set (events (receive_datagram env d a (now env (now_calls s)) (heap s r)))
      \<and> fst (handle env s (RawData d a)) = None
     \<longrightarrow> map_option h3_client (http_connections (snd (handle env s (RawData d a))) r)
           = Some (Some a))
   \<and> (pull_quic_header env d = Inr h
      \<and> (\<forall>v. version h = Some v \<longrightarrow> v \<in> set (supported_versions env))
      \<and> connections s (destination_cid h) = None
      \<and> packet_type h = Some (PACKET_TYPE_INITIAL env)
      \<and> ProtocolNegotiated \<in> set (events (receive_datagram env d a (now env (now_calls s))
                                            (new_connection env (next_ref s))))
      \<and> fst (handle env s (RawData d a)) = None
     \<longrightarrow> map_option h3_client (http_connections (snd (handle env s (RawData d a))) (next_ref s))
           = Some (Some a))"
proof (intro conjI impI; elim conjE)
  assume active: "close_at (heap s c) \<noteq> None"
    and pn: "ProtocolNegotiated \<in> set (events (conn_handle_timer env (now env (now_calls s)) (heap s c)))"
    and ok: "fst (handle_timer env c s) = None"
  let ?s1 = "s\<lparr>now_calls := Suc (now_calls s),
          heap := (heap s)(c := conn_handle_timer env (now env (now_calls s)) (heap s c)),
          engine_calls := engine_calls s @ [HandleTimer c (now env (now_calls s))]\<rparr>"
  have eq: "handle_timer env c s = handle_events env c None ?s1"
    by (rule handle_timer_active [OF active])
  have "map_option h3_client (http_connections (snd (handle_events env c None ?s1)) c) = Some None"
    using ok pn by (intro session_client) (simp_all add: eq)
  then show "map_option h3_client (http_connections (snd (handle_timer env c s)) c) = Some None"
    by (simp only: eq)
next
  assume hd: "pull_quic_header env d = Inr h"
    and ver: "\<forall>v. version h = Some v \<longrightarrow> v \<in> set (supported_versions env)"
    and found: "connections s (destination_cid h) = Some r"
    and pn: "ProtocolNegotiated \<in> set (events (receive_datagram env d a (now env (now_calls s)) (heap s r)))"
    and ok: "fst (handle env s (RawData d a)) = None"
  let ?s1 = "s\<lparr>now_calls := Suc (now_calls s),
          heap := (heap s)(r := receive_datagram env d a (now env (now_calls s)) (heap s r)),
          engine_calls := engine_calls s @ [ReceiveDatagram r d a (now env (now_calls s))]\<rparr>"
  have eq: "handle env s (RawData d a) = handle_events env r (Some a) ?s1"
    by (rule handle_existing [OF hd ver found])
  have "map_option h3_client (http_connections (snd (handle_events env r (Some a) ?s1)) r)
          = Some (Some a)"
    using ok pn by (intro session_client) (simp_all add: eq)
  then show "map_option h3_client (http_connections (snd (handle env s (RawData d a))) r)
           = Some (Some a)"
    by (simp only: eq)
next
  assume hd: "pull_quic_header env d = Inr h"
    and ver: "\<forall>v. version h = Some v \<longrightarrow> v \<in> set (supported_versions env)"
    and absent: "connections s (destination_cid h) = None"
    and initial: "packet_type h = Some (PACKET_TYPE_INITIAL env)"
    and pn: "ProtocolNegotiated \<in> set (events (receive_datagram env d a (now env (now_calls s))
                                            (new_connection env (next_ref s))))"
    and ok: "fst (handle env s (RawData d a)) = None"
  let ?s1 = "s\<lparr>connections := (connections s)
            (destination_cid h \<mapsto> next_ref s, host_cid (new_connection env (next_ref s)) \<mapsto> next_ref s),
          heap := (heap s)(next_ref s := receive_datagram env d a (now env (now_calls s))
                                          (new_connection env (next_ref s))),
          next_ref := Suc (next_ref s),
          now_calls := Suc (now_calls s),
          engine_calls := engine_calls s
             @ [ReceiveDatagram (next_ref s) d a (now env (now_calls s))]\<rparr>"
  have eq: "handle env s (RawData d a) = handle_events env (next_ref s) (Some a) ?s1"
    by (rule handle_initial [OF hd ver absent initial])
  have "map_option h3_client
          (http_connections (snd (handle_events env (next_ref s) (Some a) ?s1)) (next_ref s))
          = Some (Some a)"
    using ok pn by (intro session_client) (simp_all add: eq)
  then show "map_option h3_client
          (http_connections (snd (handle env s (RawData d a))) (next_ref s)) = Some (Some a)"
    by (simp only: eq)
qed


lemma example_timer_events:
  "events (conn_handle_timer example_engine t (heap (one_connection q ca) 0))
     = q @ [ProtocolNegotiated]"
  by (simp add: example_engine_def one_connection_def empty_protocol_def)

lemma example_receive_events:
  "events (receive_datagram example_engine d a t (heap (one_connection q ca) 0))
     = q @ [ProtocolNegotiated, ConnectionIdIssued (take 1 d)]"
  by (simp add: example_engine_def one_connection_def empty_protocol_def)

lemma example_short_header:
  "pull_quic_header example_engine [64, 0, 5]
     = Inr \<lparr>version = None, packet_type = Some 64, destination_cid = [5], source_cid = []\<rparr>"
  by (simp add: example_engine_def)

lemma connections_one_connection: "connections (one_connection q ca) [5] = Some 0"
  by (simp add: one_connection_def empty_protocol_def)

theorem session_client_address_witness:
  "fst (handle_timer example_engine 0 (one_connection [] (Some 5))) = None
   \<and> map_option h3_client
       (http_connections (snd (handle_timer example_engine 0 (one_connection [] (Some 5)))) 0)
      = Some None
   \<and> fst (handle example_engine (one_connection [] None) (RawData [64, 0, 5] (''client'', 4433)))
      = None
   \<and> map_option h3_client
       (http_connections (snd (handle example_engine (one_connection [] None)
          (RawData [64, 0, 5] (''client'', 4433)))) 0)
      = Some (Some (''client'', 4433))"
proof -
  let ?h = "\<lparr>version = None, packet_type = Some 64, destination_cid = [5], source_cid = []\<rparr>"
  have t1: "close_at (heap (one_connection [] (Some 5)) 0) \<noteq> None"
    by (simp add: close_at_one_connection)
  have t2: "ProtocolNegotiated \<in> set (events (conn_handle_timer example_engine
      (now example_engine (now_calls (one_connection [] (Some 5))))
      (heap (one_connection [] (Some 5)) 0)))"
    by (simp add: example_timer_events)
  have t3: "fst (handle_timer example_engine 0 (one_connection [] (Some 5))) = None"
    by (simp add: handle_timer_active [OF t1] handle_events_ok_iff example_timer_events)
  have h1: "pull_quic_header example_engine [64, 0, 5] = Inr ?h"
    by (rule example_short_header)
  have h2: "\<forall>v. version ?h = Some v \<longrightarrow> v \<in> set (supported_versions example_engine)"
    by simp
  have h3: "connections (one_connection [] None) (destination_cid ?h) = Some 0"
    by (simp add: connections_one_connection)
  have h4: "ProtocolNegotiated \<in> set (events (receive_datagram example_engine [64, 0, 5]
      (''client'', 4433) (now example_engine (now_calls (one_connection [] None)))
      (heap (one_connection [] None) 0)))"
    by (simp add: example_receive_events)
  have h5: "fst (handle example_engine (one_connection [] None)
      (RawData [64, 0, 5] (''client'', 4433))) = None"
    by (simp add: handle_existing [OF h1 h2 h3] handle_events_ok_iff example_receive_events)
  have a: "map_option h3_client
       (http_connections (snd (handle_timer example_engine 0 (one_connection [] (Some 5)))) 0)
      = Some None"
    using session_client_address [where s = "one_connection [] (Some 5)" and c = 0
        and env = example_engine, THEN conjunct1] t1 t2 t3
    by (simp only: simp_thms)
  have b: "map_option h3_client
       (http_connections (snd (handle example_engine (one_connection [] None)
          (RawData [64, 0, 5] (''client'', 4433)))) 0)
      = Some (Some (''client'', 4433))"
    using session_client_address [where s = "one_connection [] None" and env = example_engine
        and d = "[64, 0, 5]" and h = ?h and r = 0 and a = "(''client'', 4433)",
        THEN conjunct2, THEN conjunct1] h1 h2 h3 h4 h5
    by (simp only: simp_thms)
  from t3 a h5 b show ?thesis by (intro conjI)
qed

end
